theory Spec2Isabelle
  imports Complex_Main "HOL-Library.Multiset" "HOL-Library.Signed_Division"
begin

section \<open>Data model\<close>

text \<open>
  The three sample players (reckless abandon, danger noodle, death star) share the message
  types, the message loop and the game database word for word; they differ in
  \<open>runStrategy\<close> and in \<open>Follow\<close>. Go's \<open>int\<close> fields are modelled as \<open>int\<close>: the
  database only copies and compares them. Where the strategies add or divide them the
  64-bit wrap-around and the division panic are written out (\<open>goInt\<close>, \<open>Panic\<close>).
\<close>

record GDBBot =
  BID :: int
  PID :: int
  X :: int
  Y :: int
  Health :: int

record BotMsg =
  mPID :: int
  mBID :: int
  mX :: int
  mY :: int
  mHealth :: int
  mFired :: bool
  mHitX :: int
  mHitY :: int
  mScrap :: int
  mShield :: bool

record ReadyMsg =
  rPID :: int
  rBots :: "BotMsg list"

record GameDatabase =
  Bots :: "GDBBot list"
  gdbPID :: int

record Command =
  Cmd :: string
  cBID :: int
  cX :: int
  cY :: int
  TPID :: int
  TBID :: int
  FPow :: int
  MPow :: int
  SPow :: int

text \<open>\<open>gdb = GameDatabase{}\<close> in \<open>main\<close>: no bots, player id 0.\<close>

definition emptyGDB :: GameDatabase where
  "emptyGDB = \<lparr>Bots = [], gdbPID = 0\<rparr>"

section \<open>Game database\<close>

text \<open>
  \<open>InsertUpdateBot\<close>, first loop (\<open>b.Health <= 0\<close>): the first entry with the message's
  BID and PID is cut out of the slice, and the function returns.
\<close>

fun removeLoop :: "BotMsg \<Rightarrow> GDBBot list \<Rightarrow> GDBBot list" where
  "removeLoop b [] = []"
| "removeLoop b (bt # rest) =
     (if BID bt = mBID b \<and> PID bt = mPID b then rest else bt # removeLoop b rest)"

text \<open>
  Second loop: the first entry with the message's BID and PID gets the message's X, Y and
  Health, and the function returns; \<open>None\<close> when the loop runs to its end.
\<close>

fun updateLoop :: "BotMsg \<Rightarrow> GDBBot list \<Rightarrow> GDBBot list option" where
  "updateLoop b [] = None"
| "updateLoop b (bt # rest) =
     (if mBID b = BID bt \<and> mPID b = PID bt
      then Some (bt\<lparr>X := mX b, Y := mY b, Health := mHealth b\<rparr> # rest)
      else (case updateLoop b rest of
              None \<Rightarrow> None
            | Some rest' \<Rightarrow> Some (bt # rest')))"

definition newBot :: "BotMsg \<Rightarrow> GDBBot" where
  "newBot b = \<lparr>BID = mBID b, PID = mPID b, X = mX b, Y = mY b, Health = mHealth b\<rparr>"

definition InsertUpdateBot :: "GameDatabase \<Rightarrow> BotMsg \<Rightarrow> GameDatabase" where
  "InsertUpdateBot gdb b =
     (if mHealth b \<le> 0 then gdb\<lparr>Bots := removeLoop b (Bots gdb)\<rparr>
      else (case updateLoop b (Bots gdb) of
              Some bots \<Rightarrow> gdb\<lparr>Bots := bots\<rparr>
            | None \<Rightarrow> gdb\<lparr>Bots := Bots gdb @ [newBot b]\<rparr>))"

text \<open>
  \<open>MyBots\<close> and \<open>TheirBots\<close> return pointers \<open>&gdb.Bots[i]\<close>; a pointer is modelled by
  the index \<open>i\<close> it points at, and read through \<open>Bots gdb ! i\<close>. The source's
  loop variable \<open>bot\<close> is written \<open>bt\<close> (\<open>bot\<close> is HOL's least element).
\<close>

definition MyBots :: "GameDatabase \<Rightarrow> nat list" where
  "MyBots gdb = filter (\<lambda>i. PID (Bots gdb ! i) = gdbPID gdb) [0..<length (Bots gdb)]"

definition TheirBots :: "GameDatabase \<Rightarrow> nat list" where
  "TheirBots gdb = filter (\<lambda>i. PID (Bots gdb ! i) \<noteq> gdbPID gdb) [0..<length (Bots gdb)]"

text \<open>A sequence of upsert events applied in order.\<close>

definition applyEvents :: "GameDatabase \<Rightarrow> BotMsg list \<Rightarrow> GameDatabase" where
  "applyEvents gdb bs = foldl InsertUpdateBot gdb bs"

text \<open>The identity of a unit and of an event, and the entries stored under an identity.\<close>

definition botId :: "GDBBot \<Rightarrow> int \<times> int" where
  "botId bt = (PID bt, BID bt)"

definition msgId :: "BotMsg \<Rightarrow> int \<times> int" where
  "msgId b = (mPID b, mBID b)"

definition entriesOf :: "GameDatabase \<Rightarrow> int \<times> int \<Rightarrow> GDBBot list" where
  "entriesOf gdb k = filter (\<lambda>bt. botId bt = k) (Bots gdb)"

definition eventsOf :: "BotMsg list \<Rightarrow> int \<times> int \<Rightarrow> BotMsg list" where
  "eventsOf bs k = filter (\<lambda>b. msgId b = k) bs"

text \<open>The index of the first entry that carries the message's identity.\<close>

definition firstMatch :: "BotMsg \<Rightarrow> GDBBot list \<Rightarrow> nat" where
  "firstMatch b bots = length (takeWhile (\<lambda>bt. botId bt \<noteq> msgId b) bots)"

text \<open>A decoded BOT message with the five fields the database reads; the rest are zero.\<close>

definition botMsg :: "int \<Rightarrow> int \<Rightarrow> int \<Rightarrow> int \<Rightarrow> int \<Rightarrow> BotMsg" where
  "botMsg p b x y h = \<lparr>mPID = p, mBID = b, mX = x, mY = y, mHealth = h, mFired = False,
     mHitX = 0, mHitY = 0, mScrap = 0, mShield = False\<rparr>"

section \<open>Message loop\<close>

text \<open>
  \<open>encoding/json\<close> is outside the repository. \<open>json.Unmarshal\<close> fills a zero-valued
  variable and returns an error or nil, so each of its three uses is a function from the
  line to the value left in the variable and the error; the three are parameters of the
  model. A Go \<open>error\<close> is its text, \<open>None\<close> is nil.
\<close>

type_synonym error = string

record MsgQueueItem =
  Msg :: string
  Err :: "error option"

record Msg =
  Type :: string

record Unmarshal =
  toMsg :: "string \<Rightarrow> Msg \<times> error option"
  toReadyMsg :: "string \<Rightarrow> ReadyMsg \<times> error option"
  toBotMsg :: "string \<Rightarrow> BotMsg \<times> error option"

datatype logLine =
  ReadErrorLog error
  | MarshalFailLog string error
  | PlayerIDLog int
  | UnknownTypeLog string

text \<open>
  The state \<open>processMsgs\<close> works on: the global \<open>gdb\<close>, the lines printed by \<open>log\<close>,
  and for every \<open>go runStrategy()\<close> executed so far the database as it was at that
  statement.
\<close>

record procState =
  db :: GameDatabase
  spawned :: "GameDatabase list"
  logged :: "logLine list"

definition say :: "logLine \<Rightarrow> procState \<Rightarrow> procState" where
  "say l st = st\<lparr>logged := logged st @ [l]\<rparr>"

definition sayFailure :: "string \<Rightarrow> error option \<Rightarrow> procState \<Rightarrow> procState" where
  "sayFailure jsonmsg err st =
     (case err of None \<Rightarrow> st | Some e \<Rightarrow> say (MarshalFailLog jsonmsg e) st)"

text \<open>The READY branch: decode, log a failure, store the PID, insert the bots, spawn.\<close>

definition onReady :: "Unmarshal \<Rightarrow> string \<Rightarrow> procState \<Rightarrow> procState" where
  "onReady U jsonmsg st =
     (let (ready, err) = toReadyMsg U jsonmsg;
          st1 = sayFailure jsonmsg err st;
          st2 = say (PlayerIDLog (rPID ready)) (st1\<lparr>db := (db st1)\<lparr>gdbPID := rPID ready\<rparr>\<rparr>);
          st3 = st2\<lparr>db := foldl InsertUpdateBot (db st2) (rBots ready)\<rparr>
      in st3\<lparr>spawned := spawned st3 @ [db st3]\<rparr>)"

text \<open>The BOT branch: decode, log a failure, and insert or update the bot.\<close>

definition onBot :: "Unmarshal \<Rightarrow> string \<Rightarrow> procState \<Rightarrow> procState" where
  "onBot U jsonmsg st =
     (let (b, err) = toBotMsg U jsonmsg;
          st1 = sayFailure jsonmsg err st
      in st1\<lparr>db := InsertUpdateBot (db st1) b\<rparr>)"

text \<open>
  \<open>processMsgs\<close> on the items that the queue will deliver, in order. The receive blocks
  when they are used up (\<open>Waiting\<close>); \<open>Returned\<close> is the function's \<open>return\<close>.
\<close>

datatype status = Waiting | Returned

fun processMsgs :: "Unmarshal \<Rightarrow> procState \<Rightarrow> MsgQueueItem list \<Rightarrow> procState \<times> status" where
  "processMsgs U st [] = (st, Waiting)"
| "processMsgs U st (queueItem # queue) =
     (case Err queueItem of
        Some err \<Rightarrow> processMsgs U (say (ReadErrorLog err) st) queue
      | None \<Rightarrow>
          (case toMsg U (Msg queueItem) of
             (msg, Some err) \<Rightarrow> (say (MarshalFailLog (Msg queueItem) err) st, Returned)
           | (msg, None) \<Rightarrow>
               if Type msg = ''READY'' then processMsgs U (onReady U (Msg queueItem) st) queue
               else if Type msg = ''BOT'' then processMsgs U (onBot U (Msg queueItem) st) queue
               else processMsgs U (say (UnknownTypeLog (Type msg)) st) queue))"

definition startState :: procState where
  "startState = \<lparr>db = emptyGDB, spawned = [], logged = []\<rparr>"

text \<open>The kinds of queue item that matter for spawning.\<close>

definition isReady :: "Unmarshal \<Rightarrow> MsgQueueItem \<Rightarrow> bool" where
  "isReady U q = (Err q = None \<and> snd (toMsg U (Msg q)) = None
     \<and> Type (fst (toMsg U (Msg q))) = ''READY'')"

definition isUndecodable :: "Unmarshal \<Rightarrow> MsgQueueItem \<Rightarrow> bool" where
  "isUndecodable U q = (Err q = None \<and> snd (toMsg U (Msg q)) \<noteq> None)"

subsection \<open>Sample lines\<close>

text \<open>
  Four lines and what \<open>json.Unmarshal\<close> returns for them. \<open>cutLine\<close> is not JSON: every
  decode fails with a syntax error and leaves the variable zero. \<open>badHealthLine\<close> is JSON
  with a string where \<open>Health\<close> wants a number: decoding to \<open>Msg\<close> succeeds, decoding to
  \<open>BotMsg\<close> fills the other fields, leaves \<open>Health\<close> zero and returns an
  \<open>UnmarshalTypeError\<close>.
\<close>

definition readyLine :: string where
  \<open>readyLine = ''{"Type":"READY","PID":1,"Bots":[{"PID":1,"BID":1,"X":0,"Y":0,"Health":12},{"PID":2,"BID":1,"X":100,"Y":0,"Health":12}]}''\<close>

definition botLine :: string where
  \<open>botLine = ''{"Type":"BOT","PID":2,"BID":1,"X":90,"Y":0,"Health":7}''\<close>

definition cutLine :: string where
  \<open>cutLine = ''{"Type":"BOT","PID":2,''\<close>

definition badHealthLine :: string where
  \<open>badHealthLine = ''{"Type":"BOT","PID":2,"BID":1,"X":100,"Y":0,"Health":"low"}''\<close>

definition sampleUnmarshal :: Unmarshal where
  "sampleUnmarshal = \<lparr>
     toMsg = (\<lambda>s.
       if s = readyLine then (\<lparr>Type = ''READY''\<rparr>, None)
       else if s = botLine \<or> s = badHealthLine then (\<lparr>Type = ''BOT''\<rparr>, None)
       else (\<lparr>Type = []\<rparr>, Some ''unexpected end of JSON input'')),
     toReadyMsg = (\<lambda>s.
       if s = readyLine
       then (\<lparr>rPID = 1, rBots = [botMsg 1 1 0 0 12, botMsg 2 1 100 0 12]\<rparr>, None)
       else if s = botLine \<or> s = badHealthLine then (\<lparr>rPID = 2, rBots = []\<rparr>, None)
       else (\<lparr>rPID = 0, rBots = []\<rparr>, Some ''unexpected end of JSON input'')),
     toBotMsg = (\<lambda>s.
       if s = readyLine then (botMsg 1 0 0 0 0, None)
       else if s = botLine then (botMsg 2 1 90 0 7, None)
       else if s = badHealthLine
       then (botMsg 2 1 100 0 0,
             Some ''cannot unmarshal string into Go struct field BotMsg.Health of type int'')
       else (botMsg 0 0 0 0 0, Some ''unexpected end of JSON input''))\<rparr>"

definition item :: "string \<Rightarrow> MsgQueueItem" where
  "item s = \<lparr>Msg = s, Err = None\<rparr>"

section \<open>Strategies\<close>

text \<open>
  The strategies compute with \<open>float64\<close>, which has no place in an integer model. Each
  float-valued expression of the source is a field of \<open>geometry\<close>, a parameter of the
  strategies: every theorem about a strategy holds for every geometry, and so for the one
  the processor computes. The type \<open>'d\<close> stands for the \<open>float64\<close> values that
  \<open>distance\<close> returns; they are never NaN, so \<open><\<close> orders them linearly.

  \<^item> \<open>distance xa ya xb yb\<close>: the function \<open>distance\<close>;
  \<^item> \<open>followOffset bt b\<close>: \<open>(int(math.Cos(a)*BotDiam), int(math.Sin(a)*BotDiam))\<close> for
    \<open>a = angle(bt, b)\<close>, in \<open>Follow\<close> of danger noodle and death star;
  \<^item> \<open>orbitOffset target bt\<close>: the same pair with \<open>Distance\<close> and
    \<open>angle(target, bt)\<close> plus ten degrees, in danger noodle's lead;
  \<^item> \<open>dishOffset x y cx cy k\<close>: \<open>(int(math.Cos(a)*keepDist), int(math.Sin(a)*keepDist))\<close>
    for \<open>a = coordAngle(x, y, cx, cy) + radians*float64(k)\<close>, in death star;
  \<^item> \<open>HurryDist\<close>, \<open>FireDist\<close>, \<open>MaxFloat64\<close>: the constants of death star.
\<close>

record 'd geometry =
  distance :: "int \<Rightarrow> int \<Rightarrow> int \<Rightarrow> int \<Rightarrow> 'd"
  followOffset :: "GDBBot \<Rightarrow> GDBBot \<Rightarrow> int \<times> int"
  orbitOffset :: "GDBBot \<Rightarrow> GDBBot \<Rightarrow> int \<times> int"
  dishOffset :: "int \<Rightarrow> int \<Rightarrow> int \<Rightarrow> int \<Rightarrow> int \<Rightarrow> int \<times> int"
  HurryDist :: 'd
  FireDist :: 'd
  MaxFloat64 :: 'd

definition MaxHealth :: int where
  "MaxHealth = 12"

definition MaxPow :: int where
  "MaxPow = 12"

definition MovePow :: int where
  "MovePow = 4"

text \<open>Go's \<open>int\<close> on a 64-bit platform: sums wrap around.\<close>

definition goInt :: "int \<Rightarrow> int" where
  "goInt i = signed_take_bit 63 i"

subsection \<open>Commands\<close>

definition Move :: "GDBBot \<Rightarrow> int \<Rightarrow> int \<Rightarrow> Command" where
  "Move b x y = \<lparr>Cmd = ''MOVE'', cBID = BID b, cX = x, cY = y, TPID = 0, TBID = 0,
     FPow = 0, MPow = 0, SPow = 0\<rparr>"

text \<open>\<open>Follow\<close> of reckless abandon: move to where the other bot is.\<close>

definition Follow :: "GDBBot \<Rightarrow> GDBBot \<Rightarrow> Command" where
  "Follow b bt = \<lparr>Cmd = ''MOVE'', cBID = BID b, cX = X bt, cY = Y bt, TPID = 0, TBID = 0,
     FPow = 0, MPow = 0, SPow = 0\<rparr>"

text \<open>\<open>Follow\<close> of danger noodle and death star: keep one bot diameter away.\<close>

definition Follow_apart :: "'d geometry \<Rightarrow> GDBBot \<Rightarrow> GDBBot \<Rightarrow> Command" where
  "Follow_apart geo b bt =
     (let (ox, oy) = followOffset geo bt b
      in Move b (goInt (ox + X bt)) (goInt (oy + Y bt)))"

definition Target :: "GDBBot \<Rightarrow> GDBBot \<Rightarrow> Command" where
  "Target b bt = \<lparr>Cmd = ''TARGET'', cBID = BID b, cX = 0, cY = 0, TPID = PID bt, TBID = BID bt,
     FPow = 0, MPow = 0, SPow = 0\<rparr>"

definition Power :: "GDBBot \<Rightarrow> int \<Rightarrow> int \<Rightarrow> int \<Rightarrow> Command" where
  "Power b fire move shield = \<lparr>Cmd = ''POWER'', cBID = BID b, cX = 0, cY = 0, TPID = 0,
     TBID = 0, FPow = fire, MPow = move, SPow = shield\<rparr>"

subsection \<open>One pass through a strategy loop\<close>

text \<open>
  A pass through the body of \<open>for { ... }\<close> reads the database and ends in \<open>return\<close>, in
  \<open>time.Sleep\<close> after sending commands, or in a run-time panic. The database is taken
  as it is when the pass starts: the message loop is assumed not to write during the
  pass. What reckless abandon does before its loop (random headings from \<open>math/rand\<close>,
  three seconds of sleep, a power command) is left out.
\<close>

datatype tick = Return | Sleep "Command list" | Panic

text \<open>The sums of the X and of the Y of the bots pointed at, from the given totals.\<close>

fun ttlLoop :: "GDBBot list \<Rightarrow> nat list \<Rightarrow> int \<times> int \<Rightarrow> int \<times> int" where
  "ttlLoop bots [] (ttlX, ttlY) = (ttlX, ttlY)"
| "ttlLoop bots (p # ps) (ttlX, ttlY) =
     ttlLoop bots ps (goInt (ttlX + X (bots ! p)), goInt (ttlY + Y (bots ! p)))"

subsubsection \<open>Reckless abandon\<close>

fun lowHealthLoop :: "GDBBot list \<Rightarrow> nat list \<Rightarrow> int \<Rightarrow> int" where
  "lowHealthLoop bots [] lowHealth = lowHealth"
| "lowHealthLoop bots (p # ps) lowHealth =
     lowHealthLoop bots ps
       (if Health (bots ! p) < lowHealth then Health (bots ! p) else lowHealth)"

text \<open>
  The loop over \<open>weakBots\<close> that looks for the closest one. As in the source, \<open>dist\<close> is
  computed from \<open>closeBot\<close>, not from the loop variable.
\<close>

fun closeLoop :: "('d::linorder) geometry \<Rightarrow> GDBBot list \<Rightarrow> int \<Rightarrow> int \<Rightarrow> nat list
    \<Rightarrow> nat \<Rightarrow> 'd \<Rightarrow> nat" where
  "closeLoop geo bots avgX avgY [] closeBot closeDist = closeBot"
| "closeLoop geo bots avgX avgY (p # ps) closeBot closeDist =
     (let dist = distance geo avgX avgY (X (bots ! closeBot)) (Y (bots ! closeBot))
      in if dist < closeDist then closeLoop geo bots avgX avgY ps p dist
         else closeLoop geo bots avgX avgY ps closeBot closeDist)"

definition weakBotsOf :: "GameDatabase \<Rightarrow> nat list" where
  "weakBotsOf gdb =
     (let theirBots = TheirBots gdb;
          lowHealth = lowHealthLoop (Bots gdb) theirBots MaxHealth
      in filter (\<lambda>p. Health (Bots gdb ! p) = lowHealth) theirBots)"

text \<open>
  The target of a pass with at least one weak bot; \<open>None\<close> is the panic of the integer
  division \<open>ttlX / len(myBots)\<close> when there are several weak bots and no bot of ours.
\<close>

definition targetOf :: "('d::linorder) geometry \<Rightarrow> GameDatabase \<Rightarrow> nat list \<Rightarrow> nat option" where
  "targetOf geo gdb weakBots =
     (if length weakBots > 1 then
        (let myBots = MyBots gdb;
             (ttlX, ttlY) = ttlLoop (Bots gdb) myBots (0, 0)
         in if length myBots = 0 then None
            else
              (let avgX = ttlX sdiv int (length myBots);
                   avgY = ttlY sdiv int (length myBots);
                   closeBot = weakBots ! 0;
                   closeDist = distance geo avgX avgY (X (Bots gdb ! closeBot))
                                 (Y (Bots gdb ! closeBot))
               in Some (closeLoop geo (Bots gdb) avgX avgY weakBots closeBot closeDist)))
      else Some (weakBots ! 0))"

definition recklessTick :: "('d::linorder) geometry \<Rightarrow> GameDatabase \<Rightarrow> tick" where
  "recklessTick geo gdb =
     (let weakBots = weakBotsOf gdb
      in if length weakBots = 0 then Return
         else
           (case targetOf geo gdb weakBots of
              None \<Rightarrow> Panic
            | Some target \<Rightarrow>
                Sleep (concat (map (\<lambda>p. [Follow (Bots gdb ! p) (Bots gdb ! target),
                                          Target (Bots gdb ! p) (Bots gdb ! target)])
                                   (MyBots gdb)))))"

subsubsection \<open>Danger noodle\<close>

fun nearLoop :: "('d::linorder) geometry \<Rightarrow> GDBBot list \<Rightarrow> GDBBot \<Rightarrow> nat list
    \<Rightarrow> nat \<Rightarrow> 'd \<Rightarrow> nat" where
  "nearLoop geo bots b [] target closeDist = target"
| "nearLoop geo bots b (enemy # ps) target closeDist =
     (let dist = distance geo (X b) (Y b) (X (bots ! enemy)) (Y (bots ! enemy))
      in if dist < closeDist then nearLoop geo bots b ps enemy dist
         else nearLoop geo bots b ps target closeDist)"

text \<open>The branch \<open>i == 0\<close>; no command is sent when there is no enemy (\<open>continue\<close>).\<close>

definition leadCmds :: "('d::linorder) geometry \<Rightarrow> GameDatabase \<Rightarrow> GDBBot \<Rightarrow> Command list" where
  "leadCmds geo gdb b =
     (let theirBots = TheirBots gdb
      in if length theirBots = 0 then []
         else
           (let target0 = theirBots ! 0;
                closeDist = distance geo (X b) (Y b) (X (Bots gdb ! target0))
                              (Y (Bots gdb ! target0));
                target = Bots gdb ! nearLoop geo (Bots gdb) b theirBots target0 closeDist;
                (ox, oy) = orbitOffset geo target b
            in [Target b target,
                Power b (MaxPow - MovePow) MovePow 0,
                Move b (goInt (ox + X target)) (goInt (oy + Y target))]))"

text \<open>
  The loop over \<open>myBots\<close>; \<open>ahead\<close> is \<open>myBots[i-1]\<close>, and \<open>None\<close> when \<open>i == 0\<close>.
\<close>

fun noodleLoop :: "('d::linorder) geometry \<Rightarrow> GameDatabase \<Rightarrow> nat option \<Rightarrow> nat list
    \<Rightarrow> Command list" where
  "noodleLoop geo gdb ahead [] = []"
| "noodleLoop geo gdb None (p # ps) =
     leadCmds geo gdb (Bots gdb ! p) @ noodleLoop geo gdb (Some p) ps"
| "noodleLoop geo gdb (Some q) (p # ps) =
     [Follow_apart geo (Bots gdb ! p) (Bots gdb ! q),
      Power (Bots gdb ! p) 0 MovePow (MaxPow - MovePow)]
     @ noodleLoop geo gdb (Some p) ps"

definition noodleTick :: "('d::linorder) geometry \<Rightarrow> GameDatabase \<Rightarrow> tick" where
  "noodleTick geo gdb = Sleep (noodleLoop geo gdb None (MyBots gdb))"

subsubsection \<open>Death star\<close>

text \<open>The nearest enemy of the centre bot; \<open>None\<close> is the nil pointer.\<close>

fun dishNearLoop :: "('d::linorder) geometry \<Rightarrow> GDBBot list \<Rightarrow> GDBBot \<Rightarrow> nat list
    \<Rightarrow> nat option \<Rightarrow> 'd \<Rightarrow> nat option" where
  "dishNearLoop geo bots centerBot [] closeBot closeDist = closeBot"
| "dishNearLoop geo bots centerBot (p # ps) closeBot closeDist =
     (let dist = distance geo (X centerBot) (Y centerBot) (X (bots ! p)) (Y (bots ! p))
      in if dist < closeDist then dishNearLoop geo bots centerBot ps (Some p) dist
         else dishNearLoop geo bots centerBot ps closeBot closeDist)"

text \<open>The commands of the bot at place \<open>i\<close> of \<open>myBots\<close>.\<close>

definition dishCmds :: "('d::linorder) geometry \<Rightarrow> int \<Rightarrow> int \<Rightarrow> GDBBot \<Rightarrow> GDBBot
    \<Rightarrow> int \<Rightarrow> GDBBot \<Rightarrow> Command list" where
  "dishCmds geo x y centerBot closeBot k b =
     (let (ox, oy) = dishOffset geo x y (X centerBot) (Y centerBot) k;
          newX = goInt (ox + x);
          newY = goInt (oy + y);
          distToPosition = distance geo newX newY (X b) (Y b)
      in [Move b newX newY, Target b closeBot]
         @ (if distToPosition > HurryDist geo then [Power b 0 7 5]
            else if distToPosition \<le> FireDist geo then [Power b 5 2 5]
            else []))"

definition starTick :: "('d::linorder) geometry \<Rightarrow> GameDatabase \<Rightarrow> tick" where
  "starTick geo gdb =
     (let theirBots = TheirBots gdb
      in if length theirBots = 0 then Return
         else
           (let (ttlX, ttlY) = ttlLoop (Bots gdb) theirBots (0, 0);
                x = ttlX sdiv int (length theirBots);
                y = ttlY sdiv int (length theirBots);
                myBots = MyBots gdb
            in if length myBots = 0 then Return
               else
                 (let centerIndex = length myBots div 2;
                      centerBot = Bots gdb ! (myBots ! centerIndex)
                  in case dishNearLoop geo (Bots gdb) centerBot theirBots None (MaxFloat64 geo) of
                       None \<Rightarrow> Panic
                     | Some closeBot \<Rightarrow>
                         Sleep (concat (map (\<lambda>i. dishCmds geo x y centerBot (Bots gdb ! closeBot)
                                                   (int i - int centerIndex)
                                                   (Bots gdb ! (myBots ! i)))
                                            [0..<length myBots])))))"

subsection \<open>The loops\<close>

text \<open>
  A strategy loop run on the databases it finds at its successive passes. \<open>Running\<close>:
  the loop has gone through all of them and is still in \<open>for\<close>. The result carries the
  commands sent and the number of passes begun.
\<close>

datatype run = Running | Ended | Crashed

fun strategyLoop :: "(GameDatabase \<Rightarrow> tick) \<Rightarrow> GameDatabase list \<Rightarrow> Command list \<times> nat \<times> run" where
  "strategyLoop body [] = ([], 0, Running)"
| "strategyLoop body (gdb # later) =
     (case body gdb of
        Return \<Rightarrow> ([], 1, Ended)
      | Panic \<Rightarrow> ([], 1, Crashed)
      | Sleep cmds \<Rightarrow>
          (case strategyLoop body later of (sent, n, r) \<Rightarrow> (cmds @ sent, Suc n, r)))"

subsection \<open>A geometry over the reals\<close>

text \<open>
  The float expressions of the source read as real arithmetic, without rounding. It gives
  the closed examples below a geometry to run with.
\<close>

definition BotDiam :: real where
  "BotDiam = 60"

definition atan2 :: "real \<Rightarrow> real \<Rightarrow> real" where
  "atan2 y x =
     (if 0 < x then arctan (y / x)
      else if x < 0 then (if 0 \<le> y then arctan (y / x) + pi else arctan (y / x) - pi)
      else if 0 < y then pi / 2 else if y < 0 then - pi / 2 else 0)"

definition toInt :: "real \<Rightarrow> int" where
  "toInt r = (if 0 \<le> r then \<lfloor>r\<rfloor> else \<lceil>r\<rceil>)"

definition coordAngle :: "int \<Rightarrow> int \<Rightarrow> int \<Rightarrow> int \<Rightarrow> real" where
  "coordAngle x1 y1 x2 y2 =
     atan2 (real_of_int (goInt (y2 - y1))) (real_of_int (goInt (x2 - x1)))"

definition botAngle :: "GDBBot \<Rightarrow> GDBBot \<Rightarrow> real" where
  "botAngle bot1 bot2 = coordAngle (X bot1) (Y bot1) (X bot2) (Y bot2)"

definition realDistance :: "int \<Rightarrow> int \<Rightarrow> int \<Rightarrow> int \<Rightarrow> real" where
  "realDistance xa ya xb yb =
     sqrt ((real_of_int (goInt (xb - xa)))\<^sup>2 + (real_of_int (goInt (yb - ya)))\<^sup>2)"

definition polar :: "real \<Rightarrow> real \<Rightarrow> int \<times> int" where
  "polar a r = (toInt (cos a * r), toInt (sin a * r))"

definition realGeometry :: "real geometry" where
  "realGeometry = \<lparr>
     distance = realDistance,
     followOffset = (\<lambda>bt b. polar (botAngle bt b) BotDiam),
     orbitOffset = (\<lambda>target bt. polar (botAngle target bt + 2 * pi / 360 * 10) (BotDiam * 3)),
     dishOffset = (\<lambda>x y cx cy k.
       polar (coordAngle x y cx cy + (2 * pi) / (2 * pi * (BotDiam * 20) / BotDiam) * real_of_int k)
             (BotDiam * 20)),
     HurryDist = BotDiam * 3,
     FireDist = BotDiam / 2,
     MaxFloat64 = (2 - 1 / 2 ^ 52) * 2 ^ 1023\<rparr>"

subsection \<open>Sample databases\<close>

text \<open>
  Player 1 has one bot at the origin. In \<open>tieGDB\<close> player 2 has bots of health 3, 5, 3, 3 at
  distances 10, 1, 4, 4 from it; in \<open>aloneGDB\<close> there is no other bot.
\<close>

definition tieGDB :: GameDatabase where
  "tieGDB = \<lparr>Bots = [
       \<lparr>BID = 1, PID = 1, X = 0, Y = 0, Health = 12\<rparr>,
       \<lparr>BID = 1, PID = 2, X = 10, Y = 0, Health = 3\<rparr>,
       \<lparr>BID = 2, PID = 2, X = 1, Y = 0, Health = 5\<rparr>,
       \<lparr>BID = 3, PID = 2, X = 4, Y = 0, Health = 3\<rparr>,
       \<lparr>BID = 4, PID = 2, X = 0, Y = 4, Health = 3\<rparr>],
     gdbPID = 1\<rparr>"

definition aloneGDB :: GameDatabase where
  "aloneGDB = \<lparr>Bots = [\<lparr>BID = 1, PID = 1, X = 0, Y = 0, Health = 12\<rparr>], gdbPID = 1\<rparr>"

definition duelGDB :: GameDatabase where
  "duelGDB = \<lparr>Bots = [
       \<lparr>BID = 1, PID = 1, X = 0, Y = 0, Health = 12\<rparr>,
       \<lparr>BID = 1, PID = 2, X = 100, Y = 0, Health = 12\<rparr>],
     gdbPID = 1\<rparr>"

section \<open>Properties of the game database\<close>

lemma removeLoop_subset: "set (removeLoop b xs) \<subseteq> set xs"
  by (induction xs) auto

lemma removeLoop_distinct:
  "distinct (map botId xs) \<Longrightarrow> distinct (map botId (removeLoop b xs))"
proof (induction xs)
  case Nil
  then show ?case by simp
next
  case (Cons a xs)
  have "botId ` set (removeLoop b xs) \<subseteq> botId ` set xs"
    using removeLoop_subset by blast
  with Cons show ?case by auto
qed

lemma removeLoop_entries:
  "distinct (map botId xs) \<Longrightarrow>
   filter (\<lambda>bt. botId bt = k) (removeLoop b xs) =
     (if msgId b = k then [] else filter (\<lambda>bt. botId bt = k) xs)"
proof (induction xs)
  case Nil
  then show ?case by simp
next
  case (Cons a xs)
  show ?case
  proof (cases "BID a = mBID b \<and> PID a = mPID b")
    case True
    then have ida: "botId a = msgId b" by (simp add: botId_def msgId_def)
    from Cons.prems ida have "msgId b \<notin> botId ` set xs" by auto
    then have "filter (\<lambda>bt. botId bt = msgId b) xs = []"
      by (force simp: filter_empty_conv)
    with True ida show ?thesis by auto
  next
    case False
    then have "botId a \<noteq> msgId b" by (auto simp: botId_def msgId_def)
    with False Cons show ?thesis by auto
  qed
qed

lemma updateLoop_None: "(updateLoop b xs = None) = (msgId b \<notin> botId ` set xs)"
  by (induction xs) (auto simp: botId_def msgId_def split: option.splits)

lemma updateLoop_ids: "updateLoop b xs = Some ys \<Longrightarrow> map botId ys = map botId xs"
  by (induction xs arbitrary: ys) (auto simp: botId_def split: if_splits option.splits)

lemma updateLoop_entries:
  "updateLoop b xs = Some ys \<Longrightarrow> distinct (map botId xs) \<Longrightarrow>
   filter (\<lambda>bt. botId bt = k) ys =
     (if msgId b = k then [newBot b] else filter (\<lambda>bt. botId bt = k) xs)"
proof (induction xs arbitrary: ys)
  case Nil
  then show ?case by simp
next
  case (Cons a xs)
  show ?case
  proof (cases "mBID b = BID a \<and> mPID b = PID a")
    case True
    then have ida: "botId a = msgId b" by (simp add: botId_def msgId_def)
    from Cons.prems ida have "msgId b \<notin> botId ` set xs" by auto
    then have none: "filter (\<lambda>bt. botId bt = msgId b) xs = []"
      by (force simp: filter_empty_conv)
    from True Cons.prems have ys: "ys = a\<lparr>X := mX b, Y := mY b, Health := mHealth b\<rparr> # xs" by simp
    have upd: "a\<lparr>X := mX b, Y := mY b, Health := mHealth b\<rparr> = newBot b"
      using True by (simp add: newBot_def)
    have idn: "botId (newBot b) = msgId b" by (simp add: newBot_def botId_def msgId_def)
    show ?thesis using ys upd idn none ida by auto
  next
    case False
    then have nid: "botId a \<noteq> msgId b" by (auto simp: botId_def msgId_def)
    from False Cons.prems obtain r where r: "updateLoop b xs = Some r" "ys = a # r"
      by (auto split: option.splits)
    from Cons.IH[OF r(1)] Cons.prems have
      "filter (\<lambda>bt. botId bt = k) r = (if msgId b = k then [newBot b] else filter (\<lambda>bt. botId bt = k) xs)"
      by simp
    with r nid show ?thesis by auto
  qed
qed

lemma InsertUpdateBot_distinct:
  "distinct (map botId (Bots gdb)) \<Longrightarrow> distinct (map botId (Bots (InsertUpdateBot gdb b)))"
  by (auto simp: InsertUpdateBot_def removeLoop_distinct updateLoop_ids updateLoop_None
        newBot_def botId_def msgId_def image_iff split: option.splits)

lemma InsertUpdateBot_entries:
  assumes "distinct (map botId (Bots gdb))"
  shows "entriesOf (InsertUpdateBot gdb b) k =
     (if msgId b = k then (if 0 < mHealth b then [newBot b] else []) else entriesOf gdb k)"
proof (cases "mHealth b \<le> 0")
  case True
  then show ?thesis using assms
    by (simp add: InsertUpdateBot_def entriesOf_def removeLoop_entries)
next
  case False
  show ?thesis
  proof (cases "updateLoop b (Bots gdb)")
    case None
    then have "msgId b \<notin> botId ` set (Bots gdb)" by (simp add: updateLoop_None)
    then have "filter (\<lambda>bt. botId bt = msgId b) (Bots gdb) = []"
      by (force simp: filter_empty_conv)
    moreover have "botId (newBot b) = msgId b" by (simp add: newBot_def botId_def msgId_def)
    ultimately show ?thesis using False None
      by (auto simp: InsertUpdateBot_def entriesOf_def)
  next
    case (Some ys)
    then show ?thesis using False assms updateLoop_entries[OF Some assms, of k]
      by (simp add: InsertUpdateBot_def entriesOf_def)
  qed
qed

lemma applyEvents_distinct_ids:
  "distinct (map botId (Bots gdb)) \<Longrightarrow> distinct (map botId (Bots (applyEvents gdb bs)))"
  unfolding applyEvents_def
  by (induction bs arbitrary: gdb) (auto simp: InsertUpdateBot_distinct)

lemma applyEvents_snoc: "applyEvents gdb (bs @ [b]) = InsertUpdateBot (applyEvents gdb bs) b"
  by (simp add: applyEvents_def)

text \<open>
  Claim C1. Events applied in order to the empty database leave, under every identity
  \<open>(PID, BID)\<close>, exactly one entry with the X, Y and Health of the last event for that
  identity when that event has \<open>Health > 0\<close>, and no entry when that event has
  \<open>Health <= 0\<close> or when there is no event for the identity.
\<close>

theorem last_write_wins:
  "entriesOf (applyEvents emptyGDB bs) k =
     (if eventsOf bs k \<noteq> [] \<and> 0 < mHealth (last (eventsOf bs k))
      then [newBot (last (eventsOf bs k))] else [])"
proof (induction bs rule: rev_induct)
  case Nil
  then show ?case by (simp add: applyEvents_def emptyGDB_def entriesOf_def eventsOf_def)
next
  case (snoc b bs)
  have d: "distinct (map botId (Bots (applyEvents emptyGDB bs)))"
    by (rule applyEvents_distinct_ids) (simp add: emptyGDB_def)
  show ?case
    using snoc InsertUpdateBot_entries[OF d, of b k]
    by (simp add: applyEvents_snoc eventsOf_def)
qed

theorem last_write_wins_witness:
  "entriesOf (applyEvents emptyGDB
      [botMsg 1 1 0 0 12, botMsg 2 1 100 0 12, botMsg 2 1 90 0 7, botMsg 1 1 5 5 0]) (2, 1)
     = [\<lparr>BID = 1, PID = 2, X = 90, Y = 0, Health = 7\<rparr>]
   \<and> entriesOf (applyEvents emptyGDB
      [botMsg 1 1 0 0 12, botMsg 2 1 100 0 12, botMsg 2 1 90 0 7, botMsg 1 1 5 5 0]) (1, 1)
     = []"
  using last_write_wins[of "[botMsg 1 1 0 0 12, botMsg 2 1 100 0 12, botMsg 2 1 90 0 7,
      botMsg 1 1 5 5 0]" "(2, 1)"]
    last_write_wins[of "[botMsg 1 1 0 0 12, botMsg 2 1 100 0 12, botMsg 2 1 90 0 7,
      botMsg 1 1 5 5 0]" "(1, 1)"]
  by (simp add: eventsOf_def msgId_def botMsg_def newBot_def)

text \<open>
  Claim C9. \<open>InsertUpdateBot\<close> keeps identities unique: when no two entries share a
  \<open>(PID, BID)\<close> pair before the call, none do after it, whatever the message.
\<close>

theorem InsertUpdateBot_keeps_ids_unique:
  "distinct (map botId (Bots gdb)) \<Longrightarrow> distinct (map botId (Bots (InsertUpdateBot gdb b)))"
  by (rule InsertUpdateBot_distinct)

theorem InsertUpdateBot_keeps_ids_unique_witness:
  "distinct (map botId (Bots duelGDB))
   \<and> distinct (map botId (Bots (InsertUpdateBot duelGDB (botMsg 3 1 50 50 12))))
   \<and> length (Bots (InsertUpdateBot duelGDB (botMsg 3 1 50 50 12))) = 3"
proof -
  have h: "distinct (map botId (Bots duelGDB))"
    by (simp add: duelGDB_def botId_def)
  have c: "distinct (map botId (Bots (InsertUpdateBot duelGDB (botMsg 3 1 50 50 12))))"
    by (rule InsertUpdateBot_keeps_ids_unique[OF h])
  have l: "length (Bots (InsertUpdateBot duelGDB (botMsg 3 1 50 50 12))) = 3"
    by (simp add: duelGDB_def InsertUpdateBot_def botMsg_def)
  show ?thesis by (intro conjI h c l)
qed

lemma removeLoop_health:
  "\<forall>bt\<in>set xs. 0 < Health bt \<Longrightarrow> \<forall>bt\<in>set (removeLoop b xs). 0 < Health bt"
  using removeLoop_subset by blast

lemma updateLoop_health:
  "updateLoop b xs = Some ys \<Longrightarrow> 0 < mHealth b \<Longrightarrow> \<forall>bt\<in>set xs. 0 < Health bt \<Longrightarrow>
   \<forall>bt\<in>set ys. 0 < Health bt"
  by (induction xs arbitrary: ys) (auto split: if_splits option.splits)

lemma InsertUpdateBot_health:
  "\<forall>bt\<in>set (Bots gdb). 0 < Health bt \<Longrightarrow>
   \<forall>bt\<in>set (Bots (InsertUpdateBot gdb b)). 0 < Health bt"
proof (cases "mHealth b \<le> 0")
  case True
  assume "\<forall>bt\<in>set (Bots gdb). 0 < Health bt"
  with True show ?thesis
    using removeLoop_health[of "Bots gdb" b] by (simp add: InsertUpdateBot_def)
next
  case False
  assume a: "\<forall>bt\<in>set (Bots gdb). 0 < Health bt"
  show ?thesis
  proof (cases "updateLoop b (Bots gdb)")
    case None
    with False a show ?thesis by (auto simp: InsertUpdateBot_def newBot_def)
  next
    case (Some ys)
    with False a updateLoop_health[OF Some] show ?thesis
      by (simp add: InsertUpdateBot_def)
  qed
qed

lemma applyEvents_health:
  "\<forall>bt\<in>set (Bots gdb). 0 < Health bt \<Longrightarrow>
   \<forall>bt\<in>set (Bots (applyEvents gdb bs)). 0 < Health bt"
  unfolding applyEvents_def
proof (induction bs arbitrary: gdb)
  case Nil
  then show ?case by simp
next
  case (Cons b bs)
  from Cons.prems have "\<forall>bt\<in>set (Bots (InsertUpdateBot gdb b)). 0 < Health bt"
    by (rule InsertUpdateBot_health)
  from Cons.IH[OF this] show ?case by simp
qed

text \<open>
  Claim C8. After any sequence of \<open>InsertUpdateBot\<close> calls on the empty database every
  entry has \<open>Health > 0\<close>: no call leaves an entry of health zero or less.
\<close>

theorem store_health_positive:
  "\<forall>bt\<in>set (Bots (applyEvents emptyGDB bs)). 0 < Health bt"
  by (rule applyEvents_health) (simp add: emptyGDB_def)

theorem store_health_positive_witness:
  "Bots (applyEvents emptyGDB [botMsg 1 1 0 0 12, botMsg 2 1 100 0 12, botMsg 2 1 100 0 0])
     = [\<lparr>BID = 1, PID = 1, X = 0, Y = 0, Health = 12\<rparr>]
   \<and> 0 < Health (hd (Bots (applyEvents emptyGDB
          [botMsg 1 1 0 0 12, botMsg 2 1 100 0 12, botMsg 2 1 100 0 0])))"
proof -
  let ?bots = "Bots (applyEvents emptyGDB
    [botMsg 1 1 0 0 12, botMsg 2 1 100 0 12, botMsg 2 1 100 0 0])"
  have v: "?bots = [\<lparr>BID = 1, PID = 1, X = 0, Y = 0, Health = 12\<rparr>]"
    by (simp add: applyEvents_def emptyGDB_def InsertUpdateBot_def botMsg_def newBot_def)
  then have "hd ?bots \<in> set ?bots"
    by simp
  with store_health_positive[of "[botMsg 1 1 0 0 12, botMsg 2 1 100 0 12, botMsg 2 1 100 0 0]"]
  have "0 < Health (hd ?bots)"
    by blast
  with v show ?thesis
    by (intro conjI)
qed

lemma updateLoop_firstMatch:
  "updateLoop b xs = Some ys \<Longrightarrow>
   ys = xs[firstMatch b xs := (xs ! firstMatch b xs)\<lparr>X := mX b, Y := mY b, Health := mHealth b\<rparr>]
   \<and> firstMatch b xs < length xs \<and> botId (xs ! firstMatch b xs) = msgId b"
proof (induction xs arbitrary: ys)
  case Nil
  then show ?case by simp
next
  case (Cons a xs)
  show ?case
  proof (cases "mBID b = BID a \<and> mPID b = PID a")
    case True
    then have "botId a = msgId b" by (simp add: botId_def msgId_def)
    with True Cons.prems show ?thesis by (simp add: firstMatch_def)
  next
    case False
    then have nid: "botId a \<noteq> msgId b" by (auto simp: botId_def msgId_def)
    from False Cons.prems obtain r where r: "updateLoop b xs = Some r" "ys = a # r"
      by (auto split: option.splits)
    have fm: "firstMatch b (a # xs) = Suc (firstMatch b xs)"
      using nid by (simp add: firstMatch_def)
    from Cons.IH[OF r(1)] r(2) fm show ?thesis by simp
  qed
qed

text \<open>
  Claim C10. A message with \<open>Health > 0\<close> for an identity that is present changes the X, Y
  and Health of the first entry with that identity and nothing else: the PID and BID of
  that entry, every other entry, the order of the entries and the database's own PID stay
  as they were.
\<close>

theorem update_frame:
  assumes "0 < mHealth b" and "msgId b \<in> botId ` set (Bots gdb)"
  shows "firstMatch b (Bots gdb) < length (Bots gdb)
     \<and> botId (Bots gdb ! firstMatch b (Bots gdb)) = msgId b
     \<and> (\<forall>j < firstMatch b (Bots gdb). botId (Bots gdb ! j) \<noteq> msgId b)
     \<and> InsertUpdateBot gdb b =
         gdb\<lparr>Bots := (Bots gdb)[firstMatch b (Bots gdb) :=
            (Bots gdb ! firstMatch b (Bots gdb))\<lparr>X := mX b, Y := mY b, Health := mHealth b\<rparr>]\<rparr>
     \<and> gdbPID (InsertUpdateBot gdb b) = gdbPID gdb
     \<and> length (Bots (InsertUpdateBot gdb b)) = length (Bots gdb)
     \<and> map botId (Bots (InsertUpdateBot gdb b)) = map botId (Bots gdb)
     \<and> (\<forall>j < length (Bots gdb). j \<noteq> firstMatch b (Bots gdb) \<longrightarrow>
           Bots (InsertUpdateBot gdb b) ! j = Bots gdb ! j)"
proof -
  from assms(2) obtain ys where ys: "updateLoop b (Bots gdb) = Some ys"
    using updateLoop_None[of b "Bots gdb"] by (cases "updateLoop b (Bots gdb)") auto
  note fm = updateLoop_firstMatch[OF ys]
  have eq: "InsertUpdateBot gdb b = gdb\<lparr>Bots := ys\<rparr>"
    using assms(1) ys by (simp add: InsertUpdateBot_def)
  have pre: "\<forall>j < firstMatch b (Bots gdb). botId (Bots gdb ! j) \<noteq> msgId b"
  proof (intro allI impI)
    fix j assume "j < firstMatch b (Bots gdb)"
    then have j: "j < length (takeWhile (\<lambda>bt. botId bt \<noteq> msgId b) (Bots gdb))"
      by (simp add: firstMatch_def)
    then have "Bots gdb ! j = takeWhile (\<lambda>bt. botId bt \<noteq> msgId b) (Bots gdb) ! j"
      by (simp add: takeWhile_nth)
    moreover have "takeWhile (\<lambda>bt. botId bt \<noteq> msgId b) (Bots gdb) ! j
        \<in> set (takeWhile (\<lambda>bt. botId bt \<noteq> msgId b) (Bots gdb))"
      using j by simp
    ultimately show "botId (Bots gdb ! j) \<noteq> msgId b"
      using set_takeWhileD by metis
  qed
  show ?thesis using fm eq pre updateLoop_ids[OF ys] by simp
qed

theorem update_frame_witness:
  "0 < mHealth (botMsg 2 1 90 0 7)
   \<and> msgId (botMsg 2 1 90 0 7) \<in> botId ` set (Bots duelGDB)
   \<and> firstMatch (botMsg 2 1 90 0 7) (Bots duelGDB) = 1
   \<and> InsertUpdateBot duelGDB (botMsg 2 1 90 0 7) =
       \<lparr>Bots = [\<lparr>BID = 1, PID = 1, X = 0, Y = 0, Health = 12\<rparr>,
                \<lparr>BID = 1, PID = 2, X = 90, Y = 0, Health = 7\<rparr>], gdbPID = 1\<rparr>"
proof -
  have h1: "0 < mHealth (botMsg 2 1 90 0 7)"
    by (simp add: botMsg_def)
  have h2: "msgId (botMsg 2 1 90 0 7) \<in> botId ` set (Bots duelGDB)"
    by (simp add: botMsg_def msgId_def botId_def duelGDB_def)
  have f: "firstMatch (botMsg 2 1 90 0 7) (Bots duelGDB) = 1"
    by (simp add: firstMatch_def botMsg_def msgId_def botId_def duelGDB_def)
  show ?thesis
    using h1 h2 f update_frame[OF h1 h2]
    by (simp add: duelGDB_def botMsg_def)
qed

text \<open>
  Claim C6. \<open>MyBots\<close> and \<open>TheirBots\<close> split the entries of the database: every index of
  \<open>Bots\<close> occurs exactly once in the two lists taken together, none occurs in both, and
  the entries pointed at are those with the database's PID and those with another PID, in
  database order.
\<close>

theorem partition_exact:
  "mset (MyBots gdb) + mset (TheirBots gdb) = mset [0..<length (Bots gdb)]
   \<and> set (MyBots gdb) \<inter> set (TheirBots gdb) = {}
   \<and> distinct (MyBots gdb) \<and> distinct (TheirBots gdb)
   \<and> map ((!) (Bots gdb)) (MyBots gdb) = filter (\<lambda>bt. PID bt = gdbPID gdb) (Bots gdb)
   \<and> map ((!) (Bots gdb)) (TheirBots gdb) = filter (\<lambda>bt. PID bt \<noteq> gdbPID gdb) (Bots gdb)"
proof -
  have nth_filter: "map ((!) xs) (filter (\<lambda>i. P (xs ! i)) [0..<length xs]) = filter P xs"
    for P and xs :: "GDBBot list"
  proof -
    have "map ((!) xs) (filter (\<lambda>i. P (xs ! i)) [0..<length xs])
        = filter P (map ((!) xs) [0..<length xs])"
      by (simp add: filter_map comp_def)
    then show ?thesis by (simp add: map_nth)
  qed
  have "mset (MyBots gdb) + mset (TheirBots gdb) = mset [0..<length (Bots gdb)]"
    unfolding MyBots_def TheirBots_def mset_filter by (rule multiset_partition[symmetric])
  moreover have "set (MyBots gdb) \<inter> set (TheirBots gdb) = {}"
    by (auto simp: MyBots_def TheirBots_def)
  ultimately show ?thesis
    using nth_filter[of "Bots gdb" "\<lambda>bt. PID bt = gdbPID gdb"]
      nth_filter[of "Bots gdb" "\<lambda>bt. PID bt \<noteq> gdbPID gdb"]
    by (simp add: MyBots_def TheirBots_def)
qed

section \<open>Properties of the message loop\<close>

lemma db_say [simp]: "db (say l st) = db st"
  and spawned_say [simp]: "spawned (say l st) = spawned st"
  by (simp_all add: say_def)

lemma db_sayFailure [simp]: "db (sayFailure j e st) = db st"
  and spawned_sayFailure [simp]: "spawned (sayFailure j e st) = spawned st"
  by (simp_all add: sayFailure_def split: option.splits)

lemma spawned_onBot: "spawned (onBot U j st) = spawned st"
  by (simp add: onBot_def split: prod.splits)

lemma db_onBot: "db (onBot U j st) = InsertUpdateBot (db st) (fst (toBotMsg U j))"
  by (simp add: onBot_def split: prod.splits)

lemma db_onReady:
  "db (onReady U j st) =
     applyEvents ((db st)\<lparr>gdbPID := rPID (fst (toReadyMsg U j))\<rparr>) (rBots (fst (toReadyMsg U j)))"
  by (simp add: onReady_def applyEvents_def Let_def split: prod.splits)

lemma spawned_onReady: "spawned (onReady U j st) = spawned st @ [db (onReady U j st)]"
  by (simp add: onReady_def Let_def split: prod.splits)

lemma processMsgs_undecodable:
  "isUndecodable U q \<Longrightarrow>
   processMsgs U st (q # queue) =
     (say (MarshalFailLog (Msg q) (the (snd (toMsg U (Msg q))))) st, Returned)"
  by (auto simp: isUndecodable_def split: option.splits prod.splits)

lemma processMsgs_ready:
  "isReady U q \<Longrightarrow> processMsgs U st (q # queue) = processMsgs U (onReady U (Msg q) st) queue"
  by (auto simp: isReady_def split: option.splits prod.splits)

lemma processMsgs_quiet:
  "\<forall>q\<in>set queue. \<not> isReady U q \<Longrightarrow> spawned (fst (processMsgs U st queue)) = spawned st"
proof (induction queue arbitrary: st)
  case Nil
  then show ?case by simp
next
  case (Cons q queue)
  then have nr: "\<not> isReady U q" and rest: "\<forall>q\<in>set queue. \<not> isReady U q" by simp_all
  note IH = Cons.IH[OF rest]
  show ?case using nr IH
    by (auto simp: isReady_def spawned_onBot split: option.splits prod.splits)
qed

lemma InsertUpdateBot_gdbPID: "gdbPID (InsertUpdateBot gdb b) = gdbPID gdb"
  by (simp add: InsertUpdateBot_def split: option.splits)

lemma applyEvents_gdbPID: "gdbPID (applyEvents gdb bs) = gdbPID gdb"
  unfolding applyEvents_def
  by (induction bs arbitrary: gdb) (simp_all add: InsertUpdateBot_gdbPID)

lemma processMsgs_keeps_PID:
  "\<forall>q\<in>set queue. \<not> isReady U q \<Longrightarrow>
   gdbPID (db (fst (processMsgs U st queue))) = gdbPID (db st)"
proof (induction queue arbitrary: st)
  case Nil
  then show ?case by simp
next
  case (Cons q queue)
  then have nr: "\<not> isReady U q" and rest: "\<forall>q\<in>set queue. \<not> isReady U q" by simp_all
  note IH = Cons.IH[OF rest]
  show ?case using nr IH
    by (auto simp: isReady_def db_onBot InsertUpdateBot_gdbPID split: option.splits prod.splits)
qed

lemma processMsgs_append:
  "\<forall>q\<in>set pre. \<not> isUndecodable U q \<Longrightarrow>
   processMsgs U st (pre @ post) = processMsgs U (fst (processMsgs U st pre)) post"
proof (induction pre arbitrary: st)
  case Nil
  then show ?case by simp
next
  case (Cons q pre)
  then have nu: "\<not> isUndecodable U q" and rest: "\<forall>q\<in>set pre. \<not> isUndecodable U q"
    by simp_all
  note IH = Cons.IH[OF rest]
  show ?case using nu IH
    by (auto simp: isUndecodable_def split: option.splits prod.splits)
qed

lemma processMsgs_waiting:
  "\<forall>q\<in>set pre. \<not> isUndecodable U q \<Longrightarrow> snd (processMsgs U st pre) = Waiting"
proof (induction pre arbitrary: st)
  case Nil
  then show ?case by simp
next
  case (Cons q pre)
  then have nu: "\<not> isUndecodable U q" and rest: "\<forall>q\<in>set pre. \<not> isUndecodable U q"
    by simp_all
  note IH = Cons.IH[OF rest]
  show ?case using nu IH
    by (auto simp: isUndecodable_def split: option.splits prod.splits)
qed

text \<open>
  Claim C7, as the code has it. \<open>processMsgs\<close> executes \<open>go runStrategy()\<close> once for each
  READY item it handles, after it has stored that item's PID and applied that item's
  bots with \<open>InsertUpdateBot\<close> in order. So when one READY item is handled, no READY item
  and no undecodable line coming before it and no READY item after it, the strategy is
  spawned exactly once, on a database that carries that PID and that roster, and the
  database keeps that PID whatever follows.
\<close>

theorem spawn_after_commit:
  assumes pre: "\<forall>q\<in>set pre. \<not> isReady U q \<and> \<not> isUndecodable U q"
    and r: "isReady U r"
    and post: "\<forall>q\<in>set post. \<not> isReady U q"
  shows "spawned (fst (processMsgs U st (pre @ r # post))) =
           spawned st @
             [applyEvents ((db (fst (processMsgs U st pre)))\<lparr>gdbPID := rPID (fst (toReadyMsg U (Msg r)))\<rparr>)
                (rBots (fst (toReadyMsg U (Msg r))))]
         \<and> gdbPID (last (spawned (fst (processMsgs U st (pre @ r # post)))))
             = rPID (fst (toReadyMsg U (Msg r)))
         \<and> gdbPID (db (fst (processMsgs U st (pre @ r # post))))
             = rPID (fst (toReadyMsg U (Msg r)))"
proof -
  let ?st1 = "fst (processMsgs U st pre)"
  from pre have nu: "\<forall>q\<in>set pre. \<not> isUndecodable U q" and nr: "\<forall>q\<in>set pre. \<not> isReady U q"
    by simp_all
  have "processMsgs U st (pre @ r # post) = processMsgs U ?st1 (r # post)"
    by (rule processMsgs_append[OF nu])
  also have "\<dots> = processMsgs U (onReady U (Msg r) ?st1) post"
    by (rule processMsgs_ready[OF r])
  finally have run: "processMsgs U st (pre @ r # post)
      = processMsgs U (onReady U (Msg r) ?st1) post" .
  have pid: "gdbPID (db (fst (processMsgs U st (pre @ r # post))))
      = rPID (fst (toReadyMsg U (Msg r)))"
    by (simp add: run processMsgs_keeps_PID[OF post] db_onReady applyEvents_gdbPID)
  from run have "spawned (fst (processMsgs U st (pre @ r # post)))
      = spawned (onReady U (Msg r) ?st1)"
    by (simp add: processMsgs_quiet[OF post])
  also have "\<dots> = spawned ?st1 @ [db (onReady U (Msg r) ?st1)]"
    by (rule spawned_onReady)
  also have "spawned ?st1 = spawned st"
    by (rule processMsgs_quiet[OF nr])
  finally show ?thesis
    using pid by (simp add: db_onReady applyEvents_gdbPID)
qed

lemma sample_lines_differ:
  "readyLine \<noteq> botLine" "readyLine \<noteq> badHealthLine" "readyLine \<noteq> cutLine"
  "botLine \<noteq> badHealthLine" "botLine \<noteq> cutLine" "badHealthLine \<noteq> cutLine"
  "botLine \<noteq> readyLine" "badHealthLine \<noteq> readyLine" "cutLine \<noteq> readyLine"
  "badHealthLine \<noteq> botLine" "cutLine \<noteq> botLine" "cutLine \<noteq> badHealthLine"
  by (simp_all add: readyLine_def botLine_def badHealthLine_def cutLine_def)

lemmas run_simps = sampleUnmarshal_def item_def startState_def emptyGDB_def say_def
  sayFailure_def onReady_def onBot_def InsertUpdateBot_def botMsg_def newBot_def
  sample_lines_differ duelGDB_def aloneGDB_def

text \<open>
  Claim C4 against the code. A line that does not decode to \<open>Msg\<close> is logged, and then
  \<open>processMsgs\<close> returns: of the queue READY line, cut line, BOT line the BOT line is never
  handled and the database stays as the READY line left it, while without the cut line
  the BOT line moves the bot to X = 90 with health 7.
\<close>

theorem undecodable_line_ends_processMsgs:
  "snd (processMsgs sampleUnmarshal startState [item readyLine, item cutLine, item botLine]) = Returned
   \<and> db (fst (processMsgs sampleUnmarshal startState [item readyLine, item cutLine, item botLine]))
       = duelGDB
   \<and> Bots (db (fst (processMsgs sampleUnmarshal startState [item readyLine, item botLine])))
       = [\<lparr>BID = 1, PID = 1, X = 0, Y = 0, Health = 12\<rparr>,
          \<lparr>BID = 1, PID = 2, X = 90, Y = 0, Health = 7\<rparr>]"
  by (simp add: run_simps)

text \<open>
  Claim C5 against the code. A BOT line whose typed decode fails is logged and then
  applied all the same, with the fields the decoder did fill: \<open>badHealthLine\<close> reaches
  \<open>InsertUpdateBot\<close> with health 0, and the live bot of player 2 is removed.
\<close>

theorem failed_bot_decode_changes_store:
  "db (fst (processMsgs sampleUnmarshal startState [item readyLine])) = duelGDB
   \<and> snd (toBotMsg sampleUnmarshal badHealthLine) \<noteq> None
   \<and> db (fst (processMsgs sampleUnmarshal startState [item readyLine, item badHealthLine]))
       = aloneGDB"
  by (simp add: run_simps)

text \<open>
  Claim C7 as stated fails: two READY lines spawn the strategy twice, and a session
  without a READY line never spawns it.
\<close>

theorem spawn_count_counterexample:
  "length (spawned (fst (processMsgs sampleUnmarshal startState [item readyLine, item readyLine]))) = 2
   \<and> spawned (fst (processMsgs sampleUnmarshal startState [item botLine])) = []"
  by (simp add: run_simps)

theorem spawn_after_commit_witness:
  "spawned (fst (processMsgs sampleUnmarshal startState
      ([item botLine] @ item readyLine # [item botLine, item cutLine, item botLine])))
    = [\<lparr>Bots = [\<lparr>BID = 1, PID = 2, X = 100, Y = 0, Health = 12\<rparr>,
                 \<lparr>BID = 1, PID = 1, X = 0, Y = 0, Health = 12\<rparr>], gdbPID = 1\<rparr>]"
proof -
  have pre: "\<forall>q\<in>set [item botLine]. \<not> isReady sampleUnmarshal q \<and> \<not> isUndecodable sampleUnmarshal q"
    by (simp add: isReady_def isUndecodable_def run_simps)
  have r: "isReady sampleUnmarshal (item readyLine)"
    by (simp add: isReady_def run_simps)
  have post: "\<forall>q\<in>set [item botLine, item cutLine, item botLine]. \<not> isReady sampleUnmarshal q"
    by (simp add: isReady_def run_simps)
  show ?thesis
    using spawn_after_commit[OF pre r post, of startState]
    by (simp add: run_simps applyEvents_def)
qed

section \<open>Properties of the strategies\<close>

lemma closeLoop_stuck:
  "closeDist = distance geo avgX avgY (X (bots ! closeBot)) (Y (bots ! closeBot)) \<Longrightarrow>
   closeLoop geo bots avgX avgY ps closeBot closeDist = closeBot"
  by (induction ps) (simp_all add: Let_def)

lemma targetOf_first: "targetOf geo gdb weakBots = Some t \<Longrightarrow> t = weakBots ! 0"
  by (auto simp: targetOf_def Let_def closeLoop_stuck split: if_splits prod.splits)

lemma recklessTick_no_enemy: "length (TheirBots gdb) = 0 \<Longrightarrow> recklessTick geo gdb = Return"
  by (simp add: recklessTick_def weakBotsOf_def Let_def)

lemma starTick_no_enemy: "length (TheirBots gdb) = 0 \<Longrightarrow> starTick geo gdb = Return"
  by (simp add: starTick_def Let_def)

lemma strategyLoop_running_length:
  "snd (snd (strategyLoop body gdbs)) = Running \<Longrightarrow> fst (snd (strategyLoop body gdbs)) = length gdbs"
  by (induction gdbs) (auto split: tick.splits prod.splits)

lemma strategyLoop_return:
  "snd (snd (strategyLoop body earlier)) = Running \<Longrightarrow> body gdb = Return \<Longrightarrow>
   strategyLoop body (earlier @ gdb # later) =
     (fst (strategyLoop body earlier), Suc (length earlier), Ended)"
  by (induction earlier) (auto split: tick.splits prod.splits)

lemma noodle_runs:
  "strategyLoop (noodleTick geo) gdbs =
     (concat (map (\<lambda>g. noodleLoop geo g None (MyBots g)) gdbs), length gdbs, Running)"
  by (induction gdbs) (simp_all add: noodleTick_def)

text \<open>
  Claim C3, as the code has it. Reckless abandon and death star return at the first pass
  that finds no opposing bot. Danger noodle has no \<open>return\<close>: at such a pass its lead bot
  sends nothing (\<open>continue\<close>), and the loop sleeps and goes on, whatever it finds.
\<close>

theorem ends_without_enemy:
  assumes "length (TheirBots gdb) = 0"
  shows "(snd (snd (strategyLoop (recklessTick geo) earlier)) = Running \<longrightarrow>
            strategyLoop (recklessTick geo) (earlier @ gdb # later) =
              (fst (strategyLoop (recklessTick geo) earlier), Suc (length earlier), Ended))
       \<and> (snd (snd (strategyLoop (starTick geo) earlier)) = Running \<longrightarrow>
            strategyLoop (starTick geo) (earlier @ gdb # later) =
              (fst (strategyLoop (starTick geo) earlier), Suc (length earlier), Ended))
       \<and> snd (strategyLoop (noodleTick geo) (earlier @ gdb # later)) =
            (Suc (length earlier + length later), Running)"
  using assms
  by (simp add: strategyLoop_return recklessTick_no_enemy starTick_no_enemy noodle_runs)

lemmas db_simps = tieGDB_def aloneGDB_def duelGDB_def MyBots_def TheirBots_def upt_rec

text \<open>
  Claim C3 as stated fails for danger noodle: three passes over a database without any
  opposing bot send nothing and leave the loop running.
\<close>

theorem noodle_counterexample:
  "length (TheirBots aloneGDB) = 0
   \<and> strategyLoop (noodleTick realGeometry) [aloneGDB, aloneGDB, aloneGDB] = ([], 3, Running)"
  by (simp add: db_simps noodleTick_def leadCmds_def Let_def)

lemma duel_reckless:
  "recklessTick realGeometry duelGDB =
     Sleep [\<lparr>Cmd = ''MOVE'', cBID = 1, cX = 100, cY = 0, TPID = 0, TBID = 0, FPow = 0, MPow = 0, SPow = 0\<rparr>,
            \<lparr>Cmd = ''TARGET'', cBID = 1, cX = 0, cY = 0, TPID = 2, TBID = 1, FPow = 0, MPow = 0, SPow = 0\<rparr>]"
  by (simp add: db_simps recklessTick_def weakBotsOf_def targetOf_def Let_def MaxHealth_def
      Follow_def Target_def)

lemma goInt_small: "- (2 ^ 63) \<le> i \<Longrightarrow> i < 2 ^ 63 \<Longrightarrow> goInt i = i"
  by (simp add: goInt_def signed_take_bit_int_eq_self)

lemma realDistance_axis:
  "realDistance 0 0 10 0 = 10" "realDistance 0 0 1 0 = 1"
  "realDistance 0 0 4 0 = 4" "realDistance 0 0 0 4 = 4"
  by (simp_all add: realDistance_def goInt_small)

lemma tie_weak: "weakBotsOf tieGDB = [1, 3, 4]"
  by (simp add: db_simps weakBotsOf_def Let_def MaxHealth_def)

lemma tie_target: "targetOf realGeometry tieGDB [1, 3, 4] = Some 1"
  by (simp add: db_simps targetOf_def Let_def closeLoop_stuck)

text \<open>
  Claim C2 against the code. With enemy healths 3, 5, 3, 3 at distances 10, 1, 4, 4 from
  the centroid of our bots, the weak bots are the first, third and fourth enemy, and every
  bot of ours is sent after the first one, at distance 10, not after the one at distance
  4: the loop compares the distance of \<open>closeBot\<close> with itself and never moves on.
\<close>

theorem reckless_tie_targets_first:
  "weakBotsOf tieGDB = [1, 3, 4]
   \<and> ttlLoop (Bots tieGDB) (MyBots tieGDB) (0, 0) = (0, 0)
   \<and> map (\<lambda>p. realDistance 0 0 (X (Bots tieGDB ! p)) (Y (Bots tieGDB ! p))) (TheirBots tieGDB)
       = [10, 1, 4, 4]
   \<and> recklessTick realGeometry tieGDB =
     Sleep [\<lparr>Cmd = ''MOVE'', cBID = 1, cX = 10, cY = 0, TPID = 0, TBID = 0, FPow = 0, MPow = 0, SPow = 0\<rparr>,
            \<lparr>Cmd = ''TARGET'', cBID = 1, cX = 0, cY = 0, TPID = 2, TBID = 1, FPow = 0, MPow = 0, SPow = 0\<rparr>]"
proof -
  have d: "map (\<lambda>p. realDistance 0 0 (X (Bots tieGDB ! p)) (Y (Bots tieGDB ! p))) (TheirBots tieGDB)
       = [10, 1, 4, 4]"
    by (simp add: db_simps realDistance_axis)
  have t: "recklessTick realGeometry tieGDB =
     Sleep [\<lparr>Cmd = ''MOVE'', cBID = 1, cX = 10, cY = 0, TPID = 0, TBID = 0, FPow = 0, MPow = 0, SPow = 0\<rparr>,
            \<lparr>Cmd = ''TARGET'', cBID = 1, cX = 0, cY = 0, TPID = 2, TBID = 1, FPow = 0, MPow = 0, SPow = 0\<rparr>]"
    unfolding recklessTick_def Let_def tie_weak tie_target
    by (simp add: db_simps Follow_def Target_def)
  have c: "ttlLoop (Bots tieGDB) (MyBots tieGDB) (0, 0) = (0, 0)"
    by (simp add: db_simps goInt_small)
  show ?thesis using tie_weak c d t by simp
qed

lemma starTick_sleeps:
  assumes "length (TheirBots gdb) \<noteq> 0" and "length (MyBots gdb) \<noteq> 0"
    and "dishNearLoop geo (Bots gdb) (Bots gdb ! (MyBots gdb ! (length (MyBots gdb) div 2)))
           (TheirBots gdb) None (MaxFloat64 geo) = Some c"
  shows "\<exists>cmds. starTick geo gdb = Sleep cmds"
  using assms by (simp add: starTick_def Let_def split: prod.splits)

lemma duel_star: "\<exists>cmds. starTick realGeometry duelGDB = Sleep cmds"
proof (rule starTick_sleeps)
  show "length (TheirBots duelGDB) \<noteq> 0" by (simp add: db_simps)
  show "length (MyBots duelGDB) \<noteq> 0" by (simp add: db_simps)
  have "realDistance 0 0 100 0 = 100"
    by (simp add: realDistance_def goInt_small)
  then show "dishNearLoop realGeometry (Bots duelGDB)
      (Bots duelGDB ! (MyBots duelGDB ! (length (MyBots duelGDB) div 2)))
      (TheirBots duelGDB) None (MaxFloat64 realGeometry) = Some 1"
    by (simp add: db_simps realGeometry_def Let_def)
qed

theorem ends_without_enemy_witness:
  "length (TheirBots aloneGDB) = 0
   \<and> snd (snd (strategyLoop (recklessTick realGeometry) [duelGDB])) = Running
   \<and> snd (strategyLoop (recklessTick realGeometry) ([duelGDB] @ aloneGDB # [duelGDB])) = (2, Ended)
   \<and> snd (snd (strategyLoop (starTick realGeometry) [duelGDB])) = Running
   \<and> snd (strategyLoop (starTick realGeometry) ([duelGDB] @ aloneGDB # [duelGDB])) = (2, Ended)
   \<and> snd (strategyLoop (noodleTick realGeometry) ([duelGDB] @ aloneGDB # [duelGDB])) = (3, Running)"
proof -
  have h: "length (TheirBots aloneGDB) = 0"
    by (simp add: db_simps)
  have a: "snd (snd (strategyLoop (recklessTick realGeometry) [duelGDB])) = Running"
    by (simp add: duel_reckless)
  from duel_star obtain cmds where "starTick realGeometry duelGDB = Sleep cmds" ..
  then have c: "snd (snd (strategyLoop (starTick realGeometry) [duelGDB])) = Running"
    by simp
  show ?thesis
    using h a c ends_without_enemy[OF h, of realGeometry "[duelGDB]" "[duelGDB]"]
    by simp
qed

end
